theory Spec2Isabelle
  imports Complex_Main "HOL-Library.Multiset"
begin

section \<open>Python values shared by the services\<close>

subsection \<open>Strings\<close>

text \<open>
  A Python \<^verbatim>\<open>str\<close> is a sequence of Unicode code points, and \<^verbatim>\<open>len\<close> counts code
  points, so a string is a list of code-point numbers. \<open>S\<close> turns an ASCII literal
  into such a list.
\<close>

type_synonym pystr = "nat list"

definition S :: "string \<Rightarrow> pystr" where
  "S s = map of_char s"

text \<open>
  The Unicode tables behind \<^verbatim>\<open>str.isspace\<close>, the pattern classes \<^verbatim>\<open>\s\<close>, \<^verbatim>\<open>\w\<close>, \<^verbatim>\<open>\d\<close>
  and \<^verbatim>\<open>str.lower\<close> belong to the Python runtime, not to the repository. The
  whitespace table is small and written out in full. The word, digit and lower-case
  tables are written out for ASCII and for the two code points U+0130 (capital I with
  dot above) and U+0307 (combining dot above). On any other code point the definitions
  below say "no word character, no digit, unchanged by lower-casing", which Python does
  not say of all of them; the theorems that depend on the content of the tables are
  about the listed code points only, and the others hold whatever the tables are.
\<close>

definition py_isspace :: "nat \<Rightarrow> bool" where
  "py_isspace c \<longleftrightarrow>
     (9 \<le> c \<and> c \<le> 13) \<or> (28 \<le> c \<and> c \<le> 32) \<or> c = 133 \<or> c = 160 \<or> c = 5760 \<or>
     (8192 \<le> c \<and> c \<le> 8202) \<or> c = 8232 \<or> c = 8233 \<or> c = 8239 \<or> c = 8287 \<or>
     c = 12288"

definition ascii_upper :: "nat \<Rightarrow> bool" where
  "ascii_upper c \<longleftrightarrow> 65 \<le> c \<and> c \<le> 90"

definition ascii_lower :: "nat \<Rightarrow> bool" where
  "ascii_lower c \<longleftrightarrow> 97 \<le> c \<and> c \<le> 122"

definition py_isdigit :: "nat \<Rightarrow> bool" where
  "py_isdigit c \<longleftrightarrow> 48 \<le> c \<and> c \<le> 57"

definition py_isword :: "nat \<Rightarrow> bool" where
  "py_isword c \<longleftrightarrow> ascii_upper c \<or> ascii_lower c \<or> py_isdigit c \<or> c = 95 \<or> c = 304"

definition lower_cp :: "nat \<Rightarrow> pystr" where
  "lower_cp c = (if ascii_upper c then [c + 32] else if c = 304 then [105, 775] else [c])"

definition py_lower :: "pystr \<Rightarrow> pystr" where
  "py_lower s = concat (map lower_cp s)"

definition py_strip :: "pystr \<Rightarrow> pystr" where
  "py_strip s = rev (dropWhile py_isspace (rev (dropWhile py_isspace s)))"

text \<open>\<^verbatim>\<open>needle in haystack\<close> on strings: some suffix of the haystack starts with the needle.\<close>

fun starts_with :: "'a list \<Rightarrow> 'a list \<Rightarrow> bool" where
  "starts_with [] s = True"
| "starts_with (p # ps) [] = False"
| "starts_with (p # ps) (c # cs) = (p = c \<and> starts_with ps cs)"

fun py_in :: "'a list \<Rightarrow> 'a list \<Rightarrow> bool" where
  "py_in needle [] = (needle = [])"
| "py_in needle (c # cs) = (starts_with needle (c # cs) \<or> py_in needle cs)"

subsection \<open>Numbers\<close>

text \<open>
  A finite Python or numpy float is modelled by the real number it denotes and float
  arithmetic by exact real arithmetic; NaN is a separate value wherever the code tests
  for it. \<^verbatim>\<open>int(x)\<close> truncates towards zero. \<^verbatim>\<open>round(x, n)\<close> rounds to \<open>n\<close> decimals,
  a tie going to the even neighbour.
\<close>

definition py_int :: "real \<Rightarrow> int" where
  "py_int x = (if 0 \<le> x then \<lfloor>x\<rfloor> else \<lceil>x\<rceil>)"

definition round_half_even :: "real \<Rightarrow> int" where
  "round_half_even x =
     (let f = \<lfloor>x\<rfloor>; d = x - of_int f
      in if d < 1 / 2 then f else if 1 / 2 < d then f + 1 else if even f then f else f + 1)"

definition py_round :: "nat \<Rightarrow> real \<Rightarrow> real" where
  "py_round n x = of_int (round_half_even (x * 10 ^ n)) / 10 ^ n"


section \<open>Header standardization (cleaner.py, \<open>_standardize_header\<close>)\<close>

text \<open>
  \<^verbatim>\<open>
  header = str(header).strip()
  header = re.sub(r'[^\w\s]', '', header)
  header = re.sub(r'\s+', '_', header)
  return header.lower()
  \<close>
  The first substitution deletes every character that is neither a word character nor
  whitespace; the second replaces each maximal run of whitespace by one underscore
  (code point 95).
\<close>

definition remove_nonword :: "pystr \<Rightarrow> pystr" where
  "remove_nonword s = filter (\<lambda>c. py_isword c \<or> py_isspace c) s"

function collapse_ws :: "pystr \<Rightarrow> pystr" where
  "collapse_ws [] = []"
| "collapse_ws (c # cs) =
     (if py_isspace c then 95 # collapse_ws (dropWhile py_isspace cs)
      else c # collapse_ws cs)"
  by pat_completeness auto
termination
  by (relation "measure length") (auto simp: length_dropWhile_le less_Suc_eq_le)

definition standardize_header :: "pystr \<Rightarrow> pystr" where
  "standardize_header header = py_lower (collapse_ws (remove_nonword (py_strip header)))"


















section \<open>Correlation insights (analyzer.py, \<open>_generate_insight\<close>)\<close>

text \<open>
  A template is the text of the source's format string cut at its fields;
  \<^verbatim>\<open>template.format(A=col1, B=col2, R=f"{corr:.2f}", DIR=direction)\<close> replaces each field
  by its value in one pass.
\<close>

datatype piece = Lit pystr | FieldA | FieldB | FieldR | FieldDIR

fun render :: "pystr \<Rightarrow> pystr \<Rightarrow> pystr \<Rightarrow> pystr \<Rightarrow> piece \<Rightarrow> pystr" where
  "render a b r d (Lit t) = t"
| "render a b r d FieldA = a"
| "render a b r d FieldB = b"
| "render a b r d FieldR = r"
| "render a b r d FieldDIR = d"

definition py_format :: "piece list \<Rightarrow> pystr \<Rightarrow> pystr \<Rightarrow> pystr \<Rightarrow> pystr \<Rightarrow> pystr" where
  "py_format template a b r d = concat (map (render a b r d) template)"

text \<open>\<^verbatim>\<open>f"{corr:.2f}"\<close>: sign, integer part, a point and two decimals, rounded half to even.\<close>

fun digits_of :: "nat \<Rightarrow> pystr" where
  "digits_of n = (if n < 10 then [48 + n] else digits_of (n div 10) @ [48 + n mod 10])"

definition format_2f :: "real \<Rightarrow> pystr" where
  "format_2f x =
     (let n = nat (round_half_even (\<bar>x\<bar> * 100))
      in (if x < 0 then S ''-'' else []) @ digits_of (n div 100) @ S ''.'' @
         [48 + (n mod 100) div 10, 48 + n mod 10])"

definition weak_templates :: "piece list list" where
  "weak_templates =
     [[Lit (S ''Minimal linear relationship between ''), FieldA, Lit (S '' and ''), FieldB,
       Lit (S '' (r=''), FieldR, Lit (S '').'')],
      [Lit (S ''Analysis suggests ''), FieldA, Lit (S '' and ''), FieldB,
       Lit (S '' operate independently (r=''), FieldR, Lit (S '').'')],
      [Lit (S ''No significant correlation found between ''), FieldA, Lit (S '' and ''), FieldB,
       Lit (S '' (r=''), FieldR, Lit (S '').'')],
      [FieldA, Lit (S '' does not appear to be a strong driver of ''), FieldB,
       Lit (S '' (r=''), FieldR, Lit (S '').'')]]"

definition strong_templates :: "piece list list" where
  "strong_templates =
     [[Lit (S ''Strong ''), FieldDIR, Lit (S '' relationship between ''), FieldA,
       Lit (S '' and ''), FieldB, Lit (S '' (r=''), FieldR, Lit (S '').'')],
      [FieldA, Lit (S '' is a significant indicator of ''), FieldB,
       Lit (S '' (r=''), FieldR, Lit (S '').'')],
      [Lit (S ''Data correlation patterns link ''), FieldA, Lit (S '' closely with ''), FieldB,
       Lit (S '' (r=''), FieldR, Lit (S '').'')]]"

definition moderate_templates :: "piece list list" where
  "moderate_templates =
     [[Lit (S ''Moderate ''), FieldDIR, Lit (S '' correlation between ''), FieldA,
       Lit (S '' and ''), FieldB, Lit (S '' (r=''), FieldR, Lit (S '').'')]]"

text \<open>
  \<^verbatim>\<open>
  if abs(corr) > 0.7:   templates = strong_templates
  elif abs(corr) < 0.3: templates = weak_templates
  else:                 templates = ["Moderate {DIR} correlation between {A} and {B} (r={R})."]
  index = (len(col1) + len(col2) + int(corr * 100)) % len(templates)
  template = templates[index]
  direction = 'positive' if corr > 0 else 'negative'
  return template.format(A=col1, B=col2, R=f"{corr:.2f}", DIR=direction)
  \<close>
  Python's \<^verbatim>\<open>%\<close> with a positive modulus is never negative, as \<open>mod\<close> on \<open>int\<close>.
\<close>

definition select_templates :: "real \<Rightarrow> piece list list" where
  "select_templates corr =
     (if \<bar>corr\<bar> > 0.7 then strong_templates
      else if \<bar>corr\<bar> < 0.3 then weak_templates
      else moderate_templates)"

definition template_index :: "pystr \<Rightarrow> pystr \<Rightarrow> real \<Rightarrow> piece list list \<Rightarrow> int" where
  "template_index col1 col2 corr templates =
     (int (length col1) + int (length col2) + py_int (corr * 100)) mod int (length templates)"

definition direction_of :: "real \<Rightarrow> pystr" where
  "direction_of corr = (if corr > 0 then S ''positive'' else S ''negative'')"

definition generate_insight :: "pystr \<Rightarrow> pystr \<Rightarrow> real \<Rightarrow> pystr" where
  "generate_insight col1 col2 corr =
     (let templates = select_templates corr;
          index = template_index col1 col2 corr templates;
          template = templates ! nat index
      in py_format template col1 col2 (format_2f corr) (direction_of corr))"





section \<open>Excel serial dates (cleaner.py \<open>_convert_excel_date\<close>, analyzer.py \<open>_convert_date\<close>)\<close>

subsection \<open>Timestamps\<close>

text \<open>
  A \<^verbatim>\<open>pd.Timestamp\<close> or \<^verbatim>\<open>datetime\<close> is a point on the time line, held as nanoseconds since
  1970-01-01 00:00. \<open>days_from_civil\<close> counts the days from 1970-01-01 to a date of the
  proleptic Gregorian calendar, so \<^verbatim>\<open>pd.Timestamp('1899-12-30')\<close> is midnight of day
  \<open>days_from_civil 1899 12 30\<close>. \<^verbatim>\<open>pd.Timedelta(days=n)\<close> and \<^verbatim>\<open>timedelta(days=n)\<close> are \<open>n\<close> whole days.
\<close>

datatype timestamp = Timestamp (ns: int)

definition ns_per_day :: int where
  "ns_per_day = 86400 * 1000000000"

definition days_from_civil :: "int \<Rightarrow> int \<Rightarrow> int \<Rightarrow> int" where
  "days_from_civil y m d =
     (let y' = (if m \<le> 2 then y - 1 else y);
          era = y' div 400;
          yoe = y' - era * 400;
          doy = (153 * (if 2 < m then m - 3 else m + 9) + 2) div 5 + d - 1;
          doe = yoe * 365 + yoe div 4 - yoe div 100 + doy
      in era * 146097 + doe - 719468)"

definition timestamp_of_date :: "int \<Rightarrow> int \<Rightarrow> int \<Rightarrow> timestamp" where
  "timestamp_of_date y m d = Timestamp (days_from_civil y m d * ns_per_day)"

definition add_days :: "timestamp \<Rightarrow> int \<Rightarrow> timestamp" where
  "add_days t n = Timestamp (ns t + n * ns_per_day)"

definition excel_epoch :: timestamp where
  "excel_epoch = timestamp_of_date 1899 12 30"

subsection \<open>The values a cell can hold\<close>

text \<open>
  \<^verbatim>\<open>pd.isna\<close> holds of \<^verbatim>\<open>None\<close>, of the float NaN and of \<^verbatim>\<open>NaT\<close>. \<^verbatim>\<open>bool\<close> is a subclass
  of \<^verbatim>\<open>int\<close> (with values 0 and 1), the infinities and NaN are floats, and \<^verbatim>\<open>NaT\<close> is an
  instance of \<^verbatim>\<open>datetime\<close>.
\<close>

datatype pyval =
    PNone | PNaN | PNaT
  | PBool bool | PInt int | PFloat real | PInf bool
  | PStr pystr | PDatetime timestamp

fun isna :: "pyval \<Rightarrow> bool" where
  "isna PNone = True"
| "isna PNaN = True"
| "isna PNaT = True"
| "isna _ = False"

text \<open>
  \<^verbatim>\<open>isinstance(value, (int, float)) and 20000 < value < 100000\<close>, giving \<^verbatim>\<open>int(value)\<close>
  when the test succeeds. Every comparison with NaN is false, an infinity fails one of
  the two comparisons, and a \<^verbatim>\<open>bool\<close> compares as 0 or 1.
\<close>

fun excel_serial :: "pyval \<Rightarrow> int option" where
  "excel_serial (PInt n) = (if 20000 < n \<and> n < 100000 then Some n else None)"
| "excel_serial (PFloat x) = (if 20000 < x \<and> x < 100000 then Some (py_int x) else None)"
| "excel_serial (PBool b) =
     (if 20000 < (of_bool b :: int) \<and> (of_bool b :: int) < 100000 then Some (of_bool b) else None)"
| "excel_serial _ = None"

text \<open>
  cleaner.py:
  \<^verbatim>\<open>
  if pd.isna(value): return value
  if isinstance(value, (int, float)) and 20000 < value < 100000:
      try:    return pd.Timestamp('1899-12-30') + pd.Timedelta(days=int(value))
      except: return value
  return value
  \<close>
  The sum cannot fail for fewer than 100000 days after 1899, so the handler is never
  entered.
\<close>

definition convert_excel_date :: "pyval \<Rightarrow> pyval" where
  "convert_excel_date v =
     (if isna v then v
      else case excel_serial v of
             Some d \<Rightarrow> PDatetime (add_days excel_epoch d)
           | None \<Rightarrow> v)"

text \<open>
  analyzer.py:
  \<^verbatim>\<open>
  if isinstance(value, datetime): return value
  if isinstance(value, pd.Timestamp): return value.to_pydatetime()
  if isinstance(value, (int, float)) and 20000 < value < 100000:
      return datetime(1899, 12, 30) + timedelta(days=int(value))
  if isinstance(value, str):
      try:    return pd.to_datetime(value).to_pydatetime()
      except: pass
  return datetime.now()
  \<close>
  The clock \<open>now\<close> and the library's string parser are parameters: \<open>to_datetime s\<close> is
  the value of \<^verbatim>\<open>pd.to_datetime(s).to_pydatetime()\<close>, or \<open>None\<close> when that raises.
\<close>

definition convert_date :: "timestamp \<Rightarrow> (pystr \<Rightarrow> pyval option) \<Rightarrow> pyval \<Rightarrow> pyval" where
  "convert_date now to_datetime v =
     (case v of
        PDatetime t \<Rightarrow> v
      | PNaT \<Rightarrow> v
      | _ \<Rightarrow>
        (case excel_serial v of
           Some d \<Rightarrow> PDatetime (add_days (timestamp_of_date 1899 12 30) d)
         | None \<Rightarrow>
           (case v of
              PStr s \<Rightarrow> (case to_datetime s of Some r \<Rightarrow> r | None \<Rightarrow> PDatetime now)
            | _ \<Rightarrow> PDatetime now)))"

lemma excel_epoch_days: "days_from_civil 1899 12 30 = - 25569"
  by (simp add: days_from_civil_def)

lemma excel_epoch_ns: "excel_epoch = Timestamp (- 25569 * ns_per_day)"
  by (simp add: excel_epoch_def timestamp_of_date_def excel_epoch_days)

fun is_int_or_float :: "pyval \<Rightarrow> bool" where
  "is_int_or_float (PInt n) = True"
| "is_int_or_float (PFloat x) = True"
| "is_int_or_float _ = False"

lemma excel_serial_other: "\<not> is_int_or_float v \<Longrightarrow> excel_serial v = None"
  by (cases v) (auto split: bool.splits)

text \<open>
  C1 (as amended). In the cleaner, an integer or float \<open>v\<close> is converted exactly when
  \<open>20000 < v < 100000\<close> (both bounds exclusive); the result is midnight of 1899-12-30
  plus \<open>int(v)\<close> days, that is plus \<open>v\<close> days for an integer and plus \<open>v\<close> rounded down
  to whole days for a float; every other value, and every number outside the range, is
  returned unchanged. The analyzer converts the same numbers to the same dates and
  returns a datetime unchanged, but it replaces a number outside the range by the
  current time, and a string by its parsed date or, failing that, the current time.
\<close>

theorem excel_serial_date_conversion:
  "convert_excel_date (PInt n) =
     (if 20000 < n \<and> n < 100000
      then PDatetime (Timestamp (days_from_civil 1899 12 30 * ns_per_day + n * ns_per_day))
      else PInt n)
   \<and> convert_excel_date (PFloat x) =
     (if 20000 < x \<and> x < 100000
      then PDatetime (Timestamp (days_from_civil 1899 12 30 * ns_per_day + \<lfloor>x\<rfloor> * ns_per_day))
      else PFloat x)
   \<and> (\<not> is_int_or_float v \<longrightarrow> convert_excel_date v = v)
   \<and> convert_date now to_datetime (PInt n) =
     (if 20000 < n \<and> n < 100000 then convert_excel_date (PInt n) else PDatetime now)
   \<and> convert_date now to_datetime (PFloat x) =
     (if 20000 < x \<and> x < 100000 then convert_excel_date (PFloat x) else PDatetime now)
   \<and> convert_date now to_datetime (PDatetime t) = PDatetime t
   \<and> convert_date now to_datetime (PStr s) =
     (case to_datetime s of Some r \<Rightarrow> r | None \<Rightarrow> PDatetime now)"
proof -
  have a: "convert_excel_date (PInt n) =
     (if 20000 < n \<and> n < 100000
      then PDatetime (Timestamp (days_from_civil 1899 12 30 * ns_per_day + n * ns_per_day))
      else PInt n)"
    by (simp add: convert_excel_date_def add_days_def excel_epoch_def timestamp_of_date_def)
  have b: "convert_excel_date (PFloat x) =
     (if 20000 < x \<and> x < 100000
      then PDatetime (Timestamp (days_from_civil 1899 12 30 * ns_per_day + \<lfloor>x\<rfloor> * ns_per_day))
      else PFloat x)"
    by (simp add: convert_excel_date_def add_days_def excel_epoch_def timestamp_of_date_def
        py_int_def)
  have c: "\<not> is_int_or_float v \<longrightarrow> convert_excel_date v = v"
    by (simp add: convert_excel_date_def excel_serial_other)
  have d: "convert_date now to_datetime (PInt n) =
     (if 20000 < n \<and> n < 100000 then convert_excel_date (PInt n) else PDatetime now)"
    by (simp add: convert_date_def convert_excel_date_def excel_epoch_def)
  have e: "convert_date now to_datetime (PFloat x) =
     (if 20000 < x \<and> x < 100000 then convert_excel_date (PFloat x) else PDatetime now)"
    by (simp add: convert_date_def convert_excel_date_def excel_epoch_def)
  have f: "convert_date now to_datetime (PDatetime t) = PDatetime t"
    by (simp add: convert_date_def)
  have g: "convert_date now to_datetime (PStr s) =
     (case to_datetime s of Some r \<Rightarrow> r | None \<Rightarrow> PDatetime now)"
    by (simp add: convert_date_def)
  from a b c d e f g show ?thesis by blast
qed

theorem excel_serial_date_conversion_witness:
  "convert_excel_date (PInt 20000) = PInt 20000
   \<and> convert_excel_date (PInt 100000) = PInt 100000
   \<and> convert_excel_date (PInt 20001) = PDatetime (Timestamp (- 5568 * ns_per_day))
   \<and> convert_excel_date (PInt 99999) = PDatetime (Timestamp (74430 * ns_per_day))
   \<and> convert_excel_date (PStr (S ''n/a'')) = PStr (S ''n/a'')"
proof -
  have h: "\<not> is_int_or_float (PStr (S ''n/a''))"
    by simp
  show ?thesis
    using excel_serial_date_conversion [of 20000 0 "PStr (S ''n/a'')" "Timestamp 0" "\<lambda>s. None"]
      excel_serial_date_conversion [of 100000 0 PNone "Timestamp 0" "\<lambda>s. None"]
      excel_serial_date_conversion [of 20001 0 PNone "Timestamp 0" "\<lambda>s. None"]
      excel_serial_date_conversion [of 99999 0 PNone "Timestamp 0" "\<lambda>s. None"]
      h
    by (simp add: excel_epoch_days)
qed

text \<open>
  C1 (as stated) fails in two places. The float serial \<open>20000.5\<close> is converted to
  1899-12-30 plus 20000 days, half a day before 1899-12-30 plus \<open>v\<close> days. And the
  analyzer does not return the out-of-range serial \<open>20000\<close> unchanged: it returns the
  current time (here the clock reads \<open>Timestamp 0\<close>).
\<close>

theorem excel_serial_date_counterexample:
  "convert_excel_date (PFloat 20000.5) = PDatetime (add_days excel_epoch 20000)
   \<and> real_of_int (ns (add_days excel_epoch 20000))
       < real_of_int (ns excel_epoch) + 20000.5 * real_of_int ns_per_day
   \<and> convert_date (Timestamp 0) (\<lambda>s. None) (PInt 20000) = PDatetime (Timestamp 0)"
  by (simp add: convert_excel_date_def convert_date_def py_int_def add_days_def ns_per_day_def)


section \<open>Forecast (analyzer.py, \<open>forecast\<close>)\<close>

text \<open>
  \<^verbatim>\<open>np.mean\<close> and \<^verbatim>\<open>scipy.stats.linregress\<close> are library functions; they are written out as
  the arithmetic mean and the least-squares line (slope = covariance of x and y over the
  variance of x, intercept = mean of y minus slope times mean of x).
\<close>

definition mean :: "real list \<Rightarrow> real" where
  "mean xs = sum_list xs / real (length xs)"































section \<open>Correlations (analyzer.py, \<open>_calculate_correlations\<close>)\<close>

text \<open>
  \<^verbatim>\<open>
  meaningful_cols = [c for c in numeric_cols if not any(
      x in c.lower() for x in ['id', 'code', 'key', 'extension']) and c in df.columns]
  if len(meaningful_cols) < 2: return correlations
  corr_matrix = df[meaningful_cols].corr()
  for i, col1 in enumerate(meaningful_cols):
      for col2 in meaningful_cols[i+1:]:
          corr = corr_matrix.loc[col1, col2]
          if pd.notna(corr) and abs(corr) > 0.3:
              correlations.append({'feature_a': col1, 'feature_b': col2,
                  'correlation': round(float(corr), 3),
                  'insight': self._generate_insight(col1, col2, corr)})
  correlations.sort(key=lambda x: abs(x['correlation']), reverse=True)
  return correlations[:10]
  \<close>
  The correlation matrix is computed by pandas; it is a parameter, \<open>corr_matrix a b\<close>
  being the entry for the columns labelled \<open>a\<close> and \<open>b\<close>, with \<open>None\<close> for NaN. Column
  labels of a frame are taken to be unique. \<^verbatim>\<open>list.sort\<close> is stable, also with
  \<^verbatim>\<open>reverse=True\<close>: records with equal keys keep their order, as under \<open>sort_key\<close> with
  the negated key.
\<close>

record correlation_record =
  feature_a :: pystr
  feature_b :: pystr
  correlation :: real
  insight :: pystr

definition id_patterns :: "pystr list" where
  "id_patterns = [S ''id'', S ''code'', S ''key'', S ''extension'']"

definition is_identifier :: "pystr \<Rightarrow> bool" where
  "is_identifier c = list_ex (\<lambda>x. py_in x (py_lower c)) id_patterns"

definition meaningful_cols :: "pystr list \<Rightarrow> pystr list \<Rightarrow> pystr list" where
  "meaningful_cols df_columns numeric_cols =
     filter (\<lambda>c. \<not> is_identifier c \<and> c \<in> set df_columns) numeric_cols"

text \<open>The pairs the two nested loops visit: each column with every later column.\<close>

fun pairs :: "'a list \<Rightarrow> ('a \<times> 'a) list" where
  "pairs [] = []"
| "pairs (x # xs) = map (Pair x) xs @ pairs xs"

text \<open>The record the loop body appends for one pair, if any.\<close>

definition significant :: "(pystr \<Rightarrow> pystr \<Rightarrow> real option) \<Rightarrow> pystr \<times> pystr \<Rightarrow> correlation_record option" where
  "significant corr_matrix p =
     (case p of (col1, col2) \<Rightarrow>
        (case corr_matrix col1 col2 of
           None \<Rightarrow> None
         | Some corr \<Rightarrow>
             if \<bar>corr\<bar> > 0.3
             then Some \<lparr>feature_a = col1, feature_b = col2, correlation = py_round 3 corr,
                        insight = generate_insight col1 col2 corr\<rparr>
             else None))"

definition extract_significant :: "(pystr \<Rightarrow> pystr \<Rightarrow> real option) \<Rightarrow> pystr list \<Rightarrow> correlation_record list" where
  "extract_significant corr_matrix cols = List.map_filter (significant corr_matrix) (pairs cols)"

definition sort_by_abs_desc :: "correlation_record list \<Rightarrow> correlation_record list" where
  "sort_by_abs_desc rs = sort_key (\<lambda>x. - \<bar>correlation x\<bar>) rs"

definition calculate_correlations ::
  "(pystr \<Rightarrow> pystr \<Rightarrow> real option) \<Rightarrow> pystr list \<Rightarrow> pystr list \<Rightarrow> correlation_record list" where
  "calculate_correlations corr_matrix df_columns numeric_cols =
     (let cols = meaningful_cols df_columns numeric_cols
      in if length cols < 2 then []
         else take 10 (sort_by_abs_desc (extract_significant corr_matrix cols)))"













lemma mset_take_drop: "mset xs = mset (take n xs) + mset (drop n xs)"
  by (metis append_take_drop_id mset_append)



lemma calculate_correlations_unfold:
  "calculate_correlations cm df_columns numeric_cols =
     (if length (meaningful_cols df_columns numeric_cols) < 2 then []
      else take 10 (sort_by_abs_desc
             (extract_significant cm (meaningful_cols df_columns numeric_cols))))"
  by (simp add: calculate_correlations_def Let_def)

lemma calculate_correlations_subset:
  "mset (calculate_correlations cm df_columns numeric_cols)
     \<subseteq># mset (extract_significant cm (meaningful_cols df_columns numeric_cols))"
proof -
  let ?E = "extract_significant cm (meaningful_cols df_columns numeric_cols)"
  have "mset (take 10 (sort_by_abs_desc ?E)) \<subseteq># mset (sort_by_abs_desc ?E)"
    using mset_take_drop [of "sort_by_abs_desc ?E" 10] by simp
  then show ?thesis
    by (simp add: calculate_correlations_unfold sort_by_abs_desc_def)
qed










section \<open>Data frames\<close>

text \<open>
  A pandas column is a label with a typed series. The storage types the services
  distinguish are: numbers (\<^verbatim>\<open>np.number\<close>: int64 and float64, with NaN for a missing
  value), \<^verbatim>\<open>object\<close>, \<^verbatim>\<open>category\<close>, \<^verbatim>\<open>datetime64\<close> (with NaT) and \<^verbatim>\<open>bool\<close>. The missing
  value of a series is \<open>None\<close>. An element of an object column is given by the string
  \<^verbatim>\<open>str\<close> returns for it, which is all the cleaning rules look at. A frame is the list
  of its columns, all of the same length and with unique labels, as the parsers return
  them.
\<close>

datatype series =
    NumCol "real option list"
  | ObjCol "pystr option list"
  | CatCol "pystr option list"
  | DateCol "timestamp option list"
  | BoolCol "bool list"

record column =
  col_name :: pystr
  col_data :: series

type_synonym dataframe = "column list"

text \<open>The rows of a frame, for \<^verbatim>\<open>df.to_dict('records')\<close> and for \<^verbatim>\<open>dropna\<close>.\<close>

datatype cell = NullCell | NumCell real | StrCell pystr | DateCell timestamp | BoolCell bool

fun cells :: "series \<Rightarrow> cell list" where
  "cells (NumCol xs) = map (\<lambda>x. case x of None \<Rightarrow> NullCell | Some v \<Rightarrow> NumCell v) xs"
| "cells (ObjCol xs) = map (\<lambda>x. case x of None \<Rightarrow> NullCell | Some v \<Rightarrow> StrCell v) xs"
| "cells (CatCol xs) = map (\<lambda>x. case x of None \<Rightarrow> NullCell | Some v \<Rightarrow> StrCell v) xs"
| "cells (DateCol xs) = map (\<lambda>x. case x of None \<Rightarrow> NullCell | Some v \<Rightarrow> DateCell v) xs"
| "cells (BoolCol xs) = map BoolCell xs"

text \<open>Boolean indexing: the elements at the positions where the mask holds.\<close>

definition select :: "bool list \<Rightarrow> 'a list \<Rightarrow> 'a list" where
  "select keep xs = map snd (filter fst (zip keep xs))"

fun select_rows :: "bool list \<Rightarrow> series \<Rightarrow> series" where
  "select_rows keep (NumCol xs) = NumCol (select keep xs)"
| "select_rows keep (ObjCol xs) = ObjCol (select keep xs)"
| "select_rows keep (CatCol xs) = CatCol (select keep xs)"
| "select_rows keep (DateCol xs) = DateCol (select keep xs)"
| "select_rows keep (BoolCol xs) = BoolCol (select keep xs)"

definition nrows :: "dataframe \<Rightarrow> nat" where
  "nrows df = (case df of [] \<Rightarrow> 0 | c # _ \<Rightarrow> length (cells (col_data c)))"

definition row :: "dataframe \<Rightarrow> nat \<Rightarrow> cell list" where
  "row df i = map (\<lambda>c. cells (col_data c) ! i) df"

definition to_records :: "dataframe \<Rightarrow> cell list list" where
  "to_records df = map (row df) [0..<nrows df]"

text \<open>\<^verbatim>\<open>df.dropna(how='all')\<close> drops the rows in which every cell is missing.\<close>

definition dropna_all :: "dataframe \<Rightarrow> dataframe" where
  "dropna_all df =
     (let keep = map (\<lambda>i. list_ex (\<lambda>v. v \<noteq> NullCell) (row df i)) [0..<nrows df]
      in map (\<lambda>c. c\<lparr>col_data := select_rows keep (col_data c)\<rparr>) df)"

text \<open>The dtype tests behind \<^verbatim>\<open>select_dtypes\<close> and \<^verbatim>\<open>is_datetime64_any_dtype\<close>.\<close>

fun is_number :: "series \<Rightarrow> bool" where
  "is_number (NumCol xs) = True"
| "is_number _ = False"

fun is_object :: "series \<Rightarrow> bool" where
  "is_object (ObjCol xs) = True"
| "is_object _ = False"

fun is_category :: "series \<Rightarrow> bool" where
  "is_category (CatCol xs) = True"
| "is_category _ = False"

fun is_datetime64 :: "series \<Rightarrow> bool" where
  "is_datetime64 (DateCol xs) = True"
| "is_datetime64 _ = False"

section \<open>Cleaning (cleaner.py, \<open>UniversalCleaner\<close>)\<close>

text \<open>
  \<^verbatim>\<open>DOMAIN_RULES\<close> maps a domain to its list of rule names;
  \<^verbatim>\<open>DOMAIN_RULES.get(domain, DOMAIN_RULES['general'])\<close> is \<open>rules_for\<close> below.
\<close>

datatype rule =
    remove_currency_symbols | convert_percentages | handle_nulls | trim_whitespace
  | normalize_names | convert_dates

definition general_rules :: "rule list" where
  "general_rules = [handle_nulls, trim_whitespace]"

definition DOMAIN_RULES :: "pystr \<rightharpoonup> rule list" where
  "DOMAIN_RULES =
     [S ''finance'' \<mapsto> [remove_currency_symbols, convert_percentages, handle_nulls, trim_whitespace],
      S ''hr'' \<mapsto> [normalize_names, convert_dates, handle_nulls, trim_whitespace],
      S ''general'' \<mapsto> general_rules]"

text \<open>
  A line of the cleaning log is kept as the values its format string interpolates,
  one constructor per format string of \<open>clean\<close> and \<open>_apply_cleaning_rules\<close>.
\<close>

datatype log_entry =
    LogIngested pystr | LogFormat pystr | LogInitialRows nat | LogDomain pystr
  | LogCurrency pystr | LogPercent pystr | LogNull nat | LogRules nat
  | LogRemoved nat | LogNumeric "pystr list" | LogCategory "pystr list" | LogDates "pystr list"
  | LogStandardized | LogFinal nat nat

datatype error = ValueError

text \<open>
  \<^verbatim>\<open>df[col].astype(str)\<close> on an object column: every element becomes its \<^verbatim>\<open>str\<close>, and
  the missing value NaN becomes the string \<^verbatim>\<open>nan\<close>.
\<close>

definition astype_str :: "pystr option \<Rightarrow> pystr" where
  "astype_str x = (case x of None \<Rightarrow> S ''nan'' | Some s \<Rightarrow> s)"

text \<open>
  \<^verbatim>\<open>.str.match(r'^[\$\u00a3\u20ac\u00a5][\d,\.]+$')\<close> and \<^verbatim>\<open>.str.match(r'^\d+\.?\d*%$')\<close>. A final \<^verbatim>\<open>$\<close>
  matches at the end of the string and before a newline that ends it (code point 10).
  The currency symbols (dollar, pound, euro, yen) are the code points 36, 163, 8364 and
  165; comma, full stop and
  per cent are 44, 46 and 37.
\<close>

definition before_dollar :: "pystr \<Rightarrow> pystr" where
  "before_dollar s = (if s \<noteq> [] \<and> last s = 10 then butlast s else s)"

definition currency_symbols :: "nat list" where
  "currency_symbols = [36, 163, 8364, 165]"

definition match_currency :: "pystr \<Rightarrow> bool" where
  "match_currency s =
     (case before_dollar s of
        [] \<Rightarrow> False
      | c # rest \<Rightarrow> c \<in> set currency_symbols \<and> rest \<noteq> [] \<and>
                   list_all (\<lambda>d. py_isdigit d \<or> d = 44 \<or> d = 46) rest)"

definition match_percentage :: "pystr \<Rightarrow> bool" where
  "match_percentage s =
     (let body = before_dollar s;
          whole = takeWhile py_isdigit body;
          r1 = dropWhile py_isdigit body;
          r2 = (case r1 of c # cs \<Rightarrow> if c = 46 then cs else r1 | [] \<Rightarrow> r1);
          r3 = dropWhile py_isdigit r2
      in whole \<noteq> [] \<and> r3 = [37])"

text \<open>
  \<^verbatim>\<open>.astype(float)\<close> on a series of strings parses each with Python's \<^verbatim>\<open>float\<close>, a
  parameter here: \<open>to_float s\<close> is \<open>None\<close> when \<^verbatim>\<open>float(s)\<close> raises \<^verbatim>\<open>ValueError\<close>,
  \<open>Some None\<close> when it returns NaN and \<open>Some (Some v)\<close> otherwise. One string that does
  not parse makes the whole conversion raise.
\<close>

definition astype_float :: "(pystr \<Rightarrow> real option option) \<Rightarrow> pystr list \<Rightarrow> error + real option list" where
  "astype_float to_float strs =
     (if list_all (\<lambda>s. to_float s \<noteq> None) strs
      then Inr (map (\<lambda>s. case to_float s of Some v \<Rightarrow> v | None \<Rightarrow> None) strs)
      else Inl ValueError)"


text \<open>
  \<^verbatim>\<open>for col in df.select_dtypes(include=['object']).columns: ...\<close> visits the columns in
  order; an exception in one column ends the loop and is raised to the caller. The
  column function leaves a column that is not of object dtype as it is.
\<close>

fun for_columns ::
  "(column \<Rightarrow> error + column \<times> log_entry list) \<Rightarrow> dataframe \<Rightarrow> error + dataframe \<times> log_entry list" where
  "for_columns f [] = Inr ([], [])"
| "for_columns f (c # cs) =
     (case f c of
        Inl e \<Rightarrow> Inl e
      | Inr (c', l) \<Rightarrow>
          (case for_columns f cs of
             Inl e \<Rightarrow> Inl e
           | Inr (cs', ls) \<Rightarrow> Inr (c' # cs', l @ ls)))"

text \<open>
  \<^verbatim>\<open>
  mask = df[col].astype(str).str.match(r'^[\$\u00a3\u20ac\u00a5][\d,\.]+$')
  if mask.any():
      df[col] = df[col].astype(str).str.replace(r'[\$\u00a3\u20ac\u00a5,]', '', regex=True).astype(float)
      logs.append(f"[CURRENCY] Converted currency in {col}")
  \<close>
  and likewise for percentages, with \<^verbatim>\<open>.str.replace('%', '').astype(float) / 100\<close>.
\<close>

definition currency_column :: "(pystr \<Rightarrow> real option option) \<Rightarrow> column \<Rightarrow> error + column \<times> log_entry list" where
  "currency_column to_float c =
     (case col_data c of
        ObjCol xs \<Rightarrow>
          (let strs = map astype_str xs
           in if list_ex match_currency strs
              then (case astype_float to_float
                           (map (filter (\<lambda>d. d \<notin> set currency_symbols \<and> d \<noteq> 44)) strs) of
                      Inl e \<Rightarrow> Inl e
                    | Inr vs \<Rightarrow> Inr (c\<lparr>col_data := NumCol vs\<rparr>, [LogCurrency (col_name c)]))
              else Inr (c, []))
      | _ \<Rightarrow> Inr (c, []))"

definition percentage_column :: "(pystr \<Rightarrow> real option option) \<Rightarrow> column \<Rightarrow> error + column \<times> log_entry list" where
  "percentage_column to_float c =
     (case col_data c of
        ObjCol xs \<Rightarrow>
          (let strs = map astype_str xs
           in if list_ex match_percentage strs
              then (case astype_float to_float (map (filter (\<lambda>d. d \<noteq> 37)) strs) of
                      Inl e \<Rightarrow> Inl e
                    | Inr vs \<Rightarrow>
                        Inr (c\<lparr>col_data := NumCol (map (map_option (\<lambda>v. v / 100)) vs)\<rparr>,
                             [LogPercent (col_name c)]))
              else Inr (c, []))
      | _ \<Rightarrow> Inr (c, []))"

text \<open>\<^verbatim>\<open>df[col] = df[col].astype(str).str.strip()\<close>, for every object column.\<close>

definition trim_column :: "column \<Rightarrow> column" where
  "trim_column c =
     (case col_data c of
        ObjCol xs \<Rightarrow> c\<lparr>col_data := ObjCol (map (\<lambda>x. Some (py_strip (astype_str x))) xs)\<rparr>
      | _ \<Rightarrow> c)"

text \<open>\<^verbatim>\<open>df.isna().sum().sum()\<close>\<close>

definition null_count :: "dataframe \<Rightarrow> nat" where
  "null_count df = sum_list (map (\<lambda>c. length (filter (\<lambda>v. v = NullCell) (cells (col_data c)))) df)"

text \<open>
  One pass of the loop over the rules. The names \<open>normalize_names\<close> and
  \<open>convert_dates\<close> match no branch of the \<^verbatim>\<open>if\<close>/\<^verbatim>\<open>elif\<close> chain, so they do nothing.
\<close>

fun apply_rule ::
  "(pystr \<Rightarrow> real option option) \<Rightarrow> rule \<Rightarrow> dataframe \<times> log_entry list \<Rightarrow> error + dataframe \<times> log_entry list" where
  "apply_rule to_float remove_currency_symbols (df, logs) =
     (case for_columns (currency_column to_float) df of
        Inl e \<Rightarrow> Inl e
      | Inr (df', ls) \<Rightarrow> Inr (df', logs @ ls))"
| "apply_rule to_float convert_percentages (df, logs) =
     (case for_columns (percentage_column to_float) df of
        Inl e \<Rightarrow> Inl e
      | Inr (df', ls) \<Rightarrow> Inr (df', logs @ ls))"
| "apply_rule to_float handle_nulls (df, logs) =
     Inr (df, if null_count df > 0 then logs @ [LogNull (null_count df)] else logs)"
| "apply_rule to_float trim_whitespace (df, logs) = Inr (map trim_column df, logs)"
| "apply_rule to_float normalize_names (df, logs) = Inr (df, logs)"
| "apply_rule to_float convert_dates (df, logs) = Inr (df, logs)"

fun run_rules ::
  "(pystr \<Rightarrow> real option option) \<Rightarrow> rule list \<Rightarrow> dataframe \<times> log_entry list \<Rightarrow> error + dataframe \<times> log_entry list" where
  "run_rules to_float [] st = Inr st"
| "run_rules to_float (r # rs) st =
     (case apply_rule to_float r st of
        Inl e \<Rightarrow> Inl e
      | Inr st' \<Rightarrow> run_rules to_float rs st')"

definition apply_cleaning_rules ::
  "(pystr \<Rightarrow> real option option) \<Rightarrow> dataframe \<Rightarrow> rule list \<Rightarrow> error + dataframe \<times> log_entry list" where
  "apply_cleaning_rules to_float df rules =
     (case run_rules to_float rules (df, []) of
        Inl e \<Rightarrow> Inl e
      | Inr (df', logs) \<Rightarrow> Inr (df', logs @ [LogRules (length rules)]))"

text \<open>
  \<open>_detect_date_columns\<close>: a column is a date column when its lower-cased label
  contains one of the patterns or its dtype is datetime64.
\<close>

definition date_patterns :: "pystr list" where
  "date_patterns = [S ''date'', S ''time'', S ''month'', S ''year'', S ''period'']"

definition detect_date_columns :: "dataframe \<Rightarrow> pystr list" where
  "detect_date_columns df =
     map col_name
       (filter (\<lambda>c. list_ex (\<lambda>p. py_in p (py_lower (col_name c))) date_patterns
                    \<or> is_datetime64 (col_data c)) df)"

definition rules_for :: "pystr \<Rightarrow> rule list" where
  "rules_for domain = (case DOMAIN_RULES domain of Some rs \<Rightarrow> rs | None \<Rightarrow> general_rules)"

definition standardize_columns :: "dataframe \<Rightarrow> dataframe" where
  "standardize_columns df = map (\<lambda>c. c\<lparr>col_name := standardize_header (col_name c)\<rparr>) df"

text \<open>The dictionary \<open>clean\<close> returns.\<close>

record clean_result =
  res_headers :: "pystr list"
  res_rows :: "cell list list"
  res_numeric_columns :: "pystr list"
  res_categorical_columns :: "pystr list"
  res_date_columns :: "pystr list"
  res_row_count :: nat
  res_column_count :: nat
  res_cleaning_log :: "log_entry list"
  res_dataframe :: dataframe

text \<open>
  \<open>clean\<close>, from the parsed frame on: \<open>df\<close> is what \<^verbatim>\<open>pd.read_csv\<close> or
  \<open>_parse_excel_smart\<close> returned for the file, \<open>ext\<close> the file extension.
  \<^verbatim>\<open>
  df, rule_logs = self._apply_cleaning_rules(df, rules)
  df = df.dropna(how='all')
  removed_rows = initial_rows - len(df)
  numeric_columns = df.select_dtypes(include=[np.number]).columns.tolist()
  categorical_columns = df.select_dtypes(include=['object', 'category']).columns.tolist()
  date_columns = self._detect_date_columns(df)
  df.columns = [self._standardize_header(col) for col in df.columns]
  return {...
    'numeric_columns': [self._standardize_header(c) for c in numeric_columns if c not in date_columns],
    'categorical_columns': [self._standardize_header(c) for c in categorical_columns],
    'date_columns': [self._standardize_header(c) for c in date_columns], ...}
  \<close>
\<close>

definition clean ::
  "(pystr \<Rightarrow> real option option) \<Rightarrow> pystr \<Rightarrow> pystr \<Rightarrow> pystr \<Rightarrow> dataframe \<Rightarrow> error + clean_result" where
  "clean to_float filename ext domain df =
     (let initial_rows = nrows df;
          log0 = [LogIngested filename, LogFormat ext, LogInitialRows initial_rows, LogDomain domain];
          rules = rules_for domain
      in case apply_cleaning_rules to_float df rules of
           Inl e \<Rightarrow> Inl e
         | Inr (df1, rule_logs) \<Rightarrow>
             (let df2 = dropna_all df1;
                  removed_rows = initial_rows - nrows df2;
                  log1 = log0 @ rule_logs @ (if removed_rows > 0 then [LogRemoved removed_rows] else []);
                  numeric_columns = map col_name (filter (\<lambda>c. is_number (col_data c)) df2);
                  categorical_columns =
                    map col_name (filter (\<lambda>c. is_object (col_data c) \<or> is_category (col_data c)) df2);
                  date_columns = detect_date_columns df2;
                  log2 = log1 @ [LogNumeric numeric_columns, LogCategory categorical_columns]
                           @ (if date_columns \<noteq> [] then [LogDates date_columns] else []);
                  df3 = standardize_columns df2;
                  log3 = log2 @ [LogStandardized, LogFinal (nrows df3) (length df3)]
              in Inr \<lparr>res_headers = map col_name df3,
                      res_rows = to_records df3,
                      res_numeric_columns =
                        map standardize_header (filter (\<lambda>c. c \<notin> set date_columns) numeric_columns),
                      res_categorical_columns = map standardize_header categorical_columns,
                      res_date_columns = map standardize_header date_columns,
                      res_row_count = nrows df3,
                      res_column_count = length df3,
                      res_cleaning_log = log3,
                      res_dataframe = df3\<rparr>))"

subsection \<open>Empty rows\<close>

text \<open>
  The frame of a CSV file with the header \<^verbatim>\<open>Name,Score\<close> and the lines \<^verbatim>\<open>Ann,1\<close>, \<^verbatim>\<open>,\<close>
  (both cells empty) and \<^verbatim>\<open>Bob,2\<close>.
\<close>

definition blank_row_frame :: dataframe where
  "blank_row_frame =
     [\<lparr>col_name = S ''Name'', col_data = ObjCol [Some (S ''Ann''), None, Some (S ''Bob'')]\<rparr>,
      \<lparr>col_name = S ''Score'', col_data = NumCol [Some 1, None, Some 2]\<rparr>]"

lemma upt3: "[0..<3] = [0, 1, 2]"
  by (simp add: upt_rec)

lemma rules_for_general: "rules_for (S ''general'') = general_rules"
  by (simp add: rules_for_def DOMAIN_RULES_def S_def)

lemma blank_row_rules:
  "apply_cleaning_rules to_float blank_row_frame general_rules =
     Inr ([\<lparr>col_name = S ''Name'', col_data = ObjCol [Some (S ''Ann''), Some (S ''nan''), Some (S ''Bob'')]\<rparr>,
           \<lparr>col_name = S ''Score'', col_data = NumCol [Some 1, None, Some 2]\<rparr>],
          [LogNull 2, LogRules 2])"
  by (simp add: apply_cleaning_rules_def general_rules_def blank_row_frame_def null_count_def
      trim_column_def astype_str_def py_strip_def py_isspace_def S_def)


lemma nrows_blank: "nrows blank_row_frame = 3"
  by (simp add: nrows_def blank_row_frame_def)

lemma rows_blank: "map (row blank_row_frame) [0, 1, 2] = [[StrCell (S ''Ann''), NumCell 1], [NullCell, NullCell], [StrCell (S ''Bob''), NumCell 2]]"
  by (simp add: row_def blank_row_frame_def)

lemma dropna_blank: "dropna_all blank_row_frame = 
     [\<lparr>col_name = S ''Name'', col_data = ObjCol [Some (S ''Ann''), Some (S ''Bob'')]\<rparr>,
      \<lparr>col_name = S ''Score'', col_data = NumCol [Some 1, Some 2]\<rparr>]"
  unfolding dropna_all_def Let_def nrows_blank upt3 
  apply (simp add: rows_blank[simplified])
  apply (simp add: blank_row_frame_def select_def)
  done


text \<open>The same frame after the rules of the general domain.\<close>

definition kept_frame :: dataframe where
  "kept_frame =
     [\<lparr>col_name = S ''Name'', col_data = ObjCol [Some (S ''Ann''), Some (S ''nan''), Some (S ''Bob'')]\<rparr>,
      \<lparr>col_name = S ''Score'', col_data = NumCol [Some 1, None, Some 2]\<rparr>]"

lemma blank_row_rules':
  "apply_cleaning_rules to_float blank_row_frame general_rules = Inr (kept_frame, [LogNull 2, LogRules 2])"
  by (simp add: blank_row_rules kept_frame_def)

lemma nrows_kept: "nrows kept_frame = 3"
  by (simp add: nrows_def kept_frame_def)

lemma rows_kept: "map (row kept_frame) [0, 1, 2] = [[StrCell (S ''Ann''), NumCell 1], [StrCell (S ''nan''), NullCell], [StrCell (S ''Bob''), NumCell 2]]"
  by (simp add: row_def kept_frame_def)

lemma dropna_kept: "dropna_all kept_frame = kept_frame"
  unfolding dropna_all_def Let_def nrows_kept upt3
  apply (simp add: rows_kept[simplified])
  apply (simp add: kept_frame_def select_def)
  done

lemma to_records_rename:
  "to_records (map (\<lambda>c. c\<lparr>col_name := f (col_name c)\<rparr>) df) = to_records df"
  by (cases df) (simp_all add: to_records_def nrows_def row_def comp_def)

text \<open>
  C9 says that no entirely empty row survives cleaning. On the frame above the second
  row is empty in every column, yet \<open>clean\<close> returns all three rows: the whitespace
  rule has turned the empty \<open>Name\<close> cell into the string \<^verbatim>\<open>nan\<close> before \<^verbatim>\<open>dropna\<close> runs, so
  the row is no longer empty. Dropping empty rows first, as \<open>analyze_file\<close> in main.py
  does, leaves the two rows the claim asks for.
\<close>

theorem clean_keeps_blank_row:
  "map_sum id res_rows (clean to_float (S ''people.csv'') (S ''csv'') (S ''general'') blank_row_frame)
     = Inr [[StrCell (S ''Ann''), NumCell 1], [StrCell (S ''nan''), NullCell], [StrCell (S ''Bob''), NumCell 2]]
   \<and> to_records (dropna_all blank_row_frame)
     = [[StrCell (S ''Ann''), NumCell 1], [StrCell (S ''Bob''), NumCell 2]]"
proof -
  have a: "to_records (dropna_all blank_row_frame)
     = [[StrCell (S ''Ann''), NumCell 1], [StrCell (S ''Bob''), NumCell 2]]"
    unfolding dropna_blank by (simp add: to_records_def nrows_def row_def upt_rec [of 0 2])
  have b: "to_records kept_frame
     = [[StrCell (S ''Ann''), NumCell 1], [StrCell (S ''nan''), NullCell], [StrCell (S ''Bob''), NumCell 2]]"
    unfolding to_records_def nrows_kept upt3 by (rule rows_kept)
  have c: "map_sum id res_rows (clean to_float (S ''people.csv'') (S ''csv'') (S ''general'') blank_row_frame)
     = Inr (to_records kept_frame)"
    unfolding clean_def Let_def rules_for_general blank_row_rules'
    by (simp add: dropna_kept to_records_rename standardize_columns_def)
  from a b c show ?thesis by simp
qed


subsection \<open>Column classification and text columns\<close>

lemma run_rules_snoc:
  "run_rules tf (rs @ [r]) st =
     (case run_rules tf rs st of Inl e \<Rightarrow> Inl e | Inr st' \<Rightarrow> apply_rule tf r st')"
  by (induction rs arbitrary: st) (auto split: sum.splits)

lemma rules_for_ends_with_trim: "\<exists>rs. rules_for domain = rs @ [trim_whitespace]"
proof -
  have "rules_for domain \<in> {[remove_currency_symbols, convert_percentages, handle_nulls, trim_whitespace],
      [normalize_names, convert_dates, handle_nulls, trim_whitespace], [handle_nulls, trim_whitespace]}"
    by (simp add: rules_for_def DOMAIN_RULES_def general_rules_def)
  then consider "rules_for domain = [remove_currency_symbols, convert_percentages, handle_nulls] @ [trim_whitespace]"
    | "rules_for domain = [normalize_names, convert_dates, handle_nulls] @ [trim_whitespace]"
    | "rules_for domain = [handle_nulls] @ [trim_whitespace]"
    by auto
  then show ?thesis by cases blast+
qed


lemma clean_Inr:
  assumes "clean tf fn ext dm df = Inr res"
  obtains df1 rule_logs where
    "apply_cleaning_rules tf df (rules_for dm) = Inr (df1, rule_logs)"
    "res_dataframe res = standardize_columns (dropna_all df1)"
    "res_headers res = map standardize_header (map col_name (dropna_all df1))"
    "res_numeric_columns res =
       map standardize_header
         (filter (\<lambda>c. c \<notin> set (detect_date_columns (dropna_all df1)))
            (map col_name (filter (\<lambda>c. is_number (col_data c)) (dropna_all df1))))"
    "res_categorical_columns res =
       map standardize_header
         (map col_name (filter (\<lambda>c. is_object (col_data c) \<or> is_category (col_data c)) (dropna_all df1)))"
    "res_date_columns res = map standardize_header (detect_date_columns (dropna_all df1))"
    "\<exists>rest. res_cleaning_log res =
       [LogIngested fn, LogFormat ext, LogInitialRows (nrows df), LogDomain dm] @ rule_logs @ rest"
proof (cases "apply_cleaning_rules tf df (rules_for dm)")
  case (Inl e)
  with assms show ?thesis by (simp add: clean_def Let_def)
next
  case (Inr p)
  obtain df1 rule_logs where p: "p = (df1, rule_logs)" by (cases p)
  from assms Inr p have res: "res = \<lparr>res_headers = map col_name (standardize_columns (dropna_all df1)),
      res_rows = to_records (standardize_columns (dropna_all df1)),
      res_numeric_columns =
        map standardize_header
          (filter (\<lambda>c. c \<notin> set (detect_date_columns (dropna_all df1)))
             (map col_name (filter (\<lambda>c. is_number (col_data c)) (dropna_all df1)))),
      res_categorical_columns =
        map standardize_header
          (map col_name (filter (\<lambda>c. is_object (col_data c) \<or> is_category (col_data c)) (dropna_all df1))),
      res_date_columns = map standardize_header (detect_date_columns (dropna_all df1)),
      res_row_count = nrows (standardize_columns (dropna_all df1)),
      res_column_count = length (standardize_columns (dropna_all df1)),
      res_cleaning_log =
        [LogIngested fn, LogFormat ext, LogInitialRows (nrows df), LogDomain dm] @ rule_logs @
          ((if nrows df - nrows (dropna_all df1) > 0 then [LogRemoved (nrows df - nrows (dropna_all df1))] else [])
           @ [LogNumeric (map col_name (filter (\<lambda>c. is_number (col_data c)) (dropna_all df1))),
              LogCategory (map col_name (filter (\<lambda>c. is_object (col_data c) \<or> is_category (col_data c)) (dropna_all df1)))]
           @ (if detect_date_columns (dropna_all df1) \<noteq> [] then [LogDates (detect_date_columns (dropna_all df1))] else [])
           @ [LogStandardized,
              LogFinal (nrows (standardize_columns (dropna_all df1))) (length (standardize_columns (dropna_all df1)))]),
      res_dataframe = standardize_columns (dropna_all df1)\<rparr>"
    by (simp add: clean_def Let_def)
  show ?thesis
  proof (rule that [of df1 rule_logs])
    show "apply_cleaning_rules tf df (rules_for dm) = Inr (df1, rule_logs)"
      using Inr p by simp
    show "res_headers res = map standardize_header (map col_name (dropna_all df1))"
      by (simp add: res standardize_columns_def comp_def)
    show "\<exists>rest. res_cleaning_log res =
       [LogIngested fn, LogFormat ext, LogInitialRows (nrows df), LogDomain dm] @ rule_logs @ rest"
      unfolding res by (simp del: append_assoc)
  qed (simp_all add: res)
qed

lemma classified_names:
  "set (filter (\<lambda>c. c \<notin> set (detect_date_columns d)) (map col_name (filter (\<lambda>c. is_number (col_data c)) d)))
     \<subseteq> set (map col_name d)"
  "set (map col_name (filter (\<lambda>c. is_object (col_data c) \<or> is_category (col_data c)) d)) \<subseteq> set (map col_name d)"
  "set (detect_date_columns d) \<subseteq> set (map col_name d)"
  by (auto simp: detect_date_columns_def)

lemma number_not_text: "is_number s \<Longrightarrow> \<not> (is_object s \<or> is_category s)"
  by (cases s) auto

text \<open>
  C5 (as amended): whenever cleaning succeeds and the standardized headers of the
  cleaned frame are pairwise distinct, the numeric set is disjoint from the date set
  (a date column is taken out of the numeric set) and from the categorical set. The
  categorical and the date set are not disjoint in general: a text column with a date
  pattern in its name is in both, as on the frame with the column \<open>Month\<close> below.
\<close>

theorem clean_numeric_disjoint:
  assumes "clean to_float filename ext domain df = Inr res"
    and "distinct (res_headers res)"
  shows "set (res_numeric_columns res) \<inter> set (res_date_columns res) = {}
       \<and> set (res_numeric_columns res) \<inter> set (res_categorical_columns res) = {}"
proof -
  from assms(1) obtain df1 rule_logs where
    H: "res_headers res = map standardize_header (map col_name (dropna_all df1))"
    and N: "res_numeric_columns res =
       map standardize_header
         (filter (\<lambda>c. c \<notin> set (detect_date_columns (dropna_all df1)))
            (map col_name (filter (\<lambda>c. is_number (col_data c)) (dropna_all df1))))"
    and C: "res_categorical_columns res =
       map standardize_header
         (map col_name (filter (\<lambda>c. is_object (col_data c) \<or> is_category (col_data c)) (dropna_all df1)))"
    and D: "res_date_columns res = map standardize_header (detect_date_columns (dropna_all df1))"
    by (rule clean_Inr)
  let ?d = "dropna_all df1"
  from assms(2) have "distinct (map standardize_header (map col_name ?d))"
    unfolding H .
  then have "distinct (map col_name ?d) \<and> inj_on standardize_header (set (map col_name ?d))"
    by (rule distinct_map [THEN iffD1])
  then have dn: "distinct (map col_name ?d)"
    and inj: "inj_on standardize_header (set (map col_name ?d))"
    by blast+
  from dn have injc: "inj_on col_name (set ?d)"
    by (simp add: distinct_map)
  have nd: "set (res_numeric_columns res) \<inter> set (res_date_columns res) = {}"
  proof (rule ccontr)
    assume "set (res_numeric_columns res) \<inter> set (res_date_columns res) \<noteq> {}"
    then obtain a b where
      a: "a \<in> set (filter (\<lambda>c. c \<notin> set (detect_date_columns ?d))
                      (map col_name (filter (\<lambda>c. is_number (col_data c)) ?d)))"
      and b: "b \<in> set (detect_date_columns ?d)"
      and ab: "standardize_header a = standardize_header b"
      unfolding N D by auto
    from a classified_names(1) have "a \<in> set (map col_name ?d)" by blast
    moreover from b classified_names(3) have "b \<in> set (map col_name ?d)" by blast
    ultimately have "a = b" using ab inj by (auto dest: inj_onD)
    with a b show False by simp
  qed
  have nc: "set (res_numeric_columns res) \<inter> set (res_categorical_columns res) = {}"
  proof (rule ccontr)
    assume "set (res_numeric_columns res) \<inter> set (res_categorical_columns res) \<noteq> {}"
    then obtain c c' where
      c: "c \<in> set ?d" "is_number (col_data c)"
      and c': "c' \<in> set ?d" "is_object (col_data c') \<or> is_category (col_data c')"
      and ab: "standardize_header (col_name c) = standardize_header (col_name c')"
      unfolding N C by auto
    from c(1) c'(1) ab inj have "col_name c = col_name c'"
      by (auto dest: inj_onD)
    with c(1) c'(1) injc have "c = c'"
      by (auto dest: inj_onD)
    with c(2) c'(2) number_not_text show False by blast
  qed
  from nd nc show ?thesis ..
qed

lemma set_select: "set (select keep xs) \<subseteq> set xs"
  by (auto simp: select_def dest: set_zip_rightD)


lemma select_rows_obj:
  "select_rows keep s = ObjCol xs \<Longrightarrow> \<exists>ys. s = ObjCol ys \<and> xs = select keep ys"
  by (cases s) auto


lemma py_strip_nan: "py_strip (S ''nan'') = S ''nan''"
  by (simp add: py_strip_def S_def py_isspace_def)


lemma trim_column_obj:
  "col_data c = ObjCol xs \<Longrightarrow>
     col_data (trim_column c) =
       ObjCol (map (\<lambda>x. case x of None \<Rightarrow> Some (S ''nan'') | Some s \<Rightarrow> Some (py_strip s)) xs)"
  by (auto simp: trim_column_def astype_str_def py_strip_nan split: option.splits)


lemma trim_column_no_null: "col_data (trim_column c) = ObjCol ys \<Longrightarrow> None \<notin> set ys"
  by (cases "col_data c") (auto simp: trim_column_def)


lemma dropna_all_column:
  assumes "c1 \<in> set (dropna_all d)"
  shows "\<exists>c0 keep. c0 \<in> set d \<and> col_data c1 = select_rows keep (col_data c0)"
proof -
  define keep where "keep = map (\<lambda>i. list_ex (\<lambda>v. v \<noteq> NullCell) (row d i)) [0..<nrows d]"
  have "dropna_all d = map (\<lambda>c. c\<lparr>col_data := select_rows keep (col_data c)\<rparr>) d"
    unfolding dropna_all_def Let_def keep_def ..
  with assms have "c1 \<in> (\<lambda>c. c\<lparr>col_data := select_rows keep (col_data c)\<rparr>) ` set d"
    by simp
  then obtain c0 where "c0 \<in> set d" "c1 = c0\<lparr>col_data := select_rows keep (col_data c0)\<rparr>"
    by (rule imageE)
  then have "c0 \<in> set d \<and> col_data c1 = select_rows keep (col_data c0)"
    by simp
  then show ?thesis by blast
qed

lemma cleaned_frame_no_null:
  assumes "c \<in> set (standardize_columns (dropna_all (map trim_column df1)))"
    and "col_data c = ObjCol xs"
  shows "None \<notin> set xs"
proof -
  from assms(1) have "c \<in> (\<lambda>c. c\<lparr>col_name := standardize_header (col_name c)\<rparr>) `
      set (dropna_all (map trim_column df1))"
    by (simp add: standardize_columns_def)
  then obtain c1 where c1: "c1 \<in> set (dropna_all (map trim_column df1))"
    and cc: "c = c1\<lparr>col_name := standardize_header (col_name c1)\<rparr>"
    by (rule imageE)
  from cc have cd: "col_data c = col_data c1" by simp
  from dropna_all_column [OF c1] obtain ct keep where
    ct: "ct \<in> set (map trim_column df1)" and sel: "col_data c1 = select_rows keep (col_data ct)"
    by blast
  from ct obtain c0 where ct0: "ct = trim_column c0"
    by auto
  from sel cd assms(2) have "select_rows keep (col_data ct) = ObjCol xs"
    by simp
  then obtain ys where ys: "col_data ct = ObjCol ys" "xs = select keep ys"
    by (blast dest: select_rows_obj)
  from ys(1) ct0 have "None \<notin> set ys"
    by (simp add: trim_column_no_null)
  with ys(2) set_select [of keep ys] show ?thesis by blast
qed

text \<open>
  C10: whenever \<open>clean\<close> returns, for any domain hint, no object column of the
  returned frame holds a missing value. The rule list of the domain ends with the
  whitespace rule; that rule maps every missing cell of an object column to the string
  \<^verbatim>\<open>nan\<close> (and every other cell to its stripped string), and it adds no line to the log:
  the lines of the rules are those of the rules before it, followed at once by the
  line that counts the rules.
\<close>

theorem clean_text_columns_no_nulls:
  assumes "clean to_float filename ext domain df = Inr res"
  shows "(\<forall>c\<in>set (res_dataframe res). \<forall>xs. col_data c = ObjCol xs \<longrightarrow> None \<notin> set xs)
     \<and> (\<exists>rs df1 logs1 rest.
          rules_for domain = rs @ [trim_whitespace]
        \<and> run_rules to_float rs (df, []) = Inr (df1, logs1)
        \<and> res_dataframe res = standardize_columns (dropna_all (map trim_column df1))
        \<and> (\<forall>c\<in>set df1. \<forall>xs. col_data c = ObjCol xs \<longrightarrow>
              col_data (trim_column c) =
                ObjCol (map (\<lambda>x. case x of None \<Rightarrow> Some (S ''nan'') | Some s \<Rightarrow> Some (py_strip s)) xs))
        \<and> res_cleaning_log res =
            [LogIngested filename, LogFormat ext, LogInitialRows (nrows df), LogDomain domain]
              @ logs1 @ LogRules (Suc (length rs)) # rest)"
proof -
  from assms obtain dfA rule_logs rest where
    A: "apply_cleaning_rules to_float df (rules_for domain) = Inr (dfA, rule_logs)"
    and F: "res_dataframe res = standardize_columns (dropna_all dfA)"
    and L: "res_cleaning_log res =
       [LogIngested filename, LogFormat ext, LogInitialRows (nrows df), LogDomain domain] @ rule_logs @ rest"
    by (rule clean_Inr) blast
  obtain rs where rs: "rules_for domain = rs @ [trim_whitespace]"
    using rules_for_ends_with_trim by blast
  from A rs obtain logsA where
    R: "run_rules to_float (rs @ [trim_whitespace]) (df, []) = Inr (dfA, logsA)"
    and RL: "rule_logs = logsA @ [LogRules (Suc (length rs))]"
    by (auto simp: apply_cleaning_rules_def split: sum.splits)
  from R obtain df1 logs1 where
    R1: "run_rules to_float rs (df, []) = Inr (df1, logs1)"
    and T: "apply_rule to_float trim_whitespace (df1, logs1) = Inr (dfA, logsA)"
    unfolding run_rules_snoc by (auto split: sum.splits)
  from T have dfA: "dfA = map trim_column df1" and logsA: "logsA = logs1"
    by simp_all
  have 1: "\<forall>c\<in>set (res_dataframe res). \<forall>xs. col_data c = ObjCol xs \<longrightarrow> None \<notin> set xs"
  proof (intro ballI allI impI)
    fix c xs
    assume "c \<in> set (res_dataframe res)" "col_data c = ObjCol xs"
    then show "None \<notin> set xs"
      unfolding F dfA by (rule cleaned_frame_no_null)
  qed
  have 2: "\<forall>c\<in>set df1. \<forall>xs. col_data c = ObjCol xs \<longrightarrow>
              col_data (trim_column c) =
                ObjCol (map (\<lambda>x. case x of None \<Rightarrow> Some (S ''nan'') | Some s \<Rightarrow> Some (py_strip s)) xs)"
    by (simp add: trim_column_obj)
  have 3: "res_cleaning_log res =
            [LogIngested filename, LogFormat ext, LogInitialRows (nrows df), LogDomain domain]
              @ logs1 @ LogRules (Suc (length rs)) # rest"
    by (simp add: L RL logsA)
  have "rules_for domain = rs @ [trim_whitespace]
        \<and> run_rules to_float rs (df, []) = Inr (df1, logs1)
        \<and> res_dataframe res = standardize_columns (dropna_all (map trim_column df1))
        \<and> (\<forall>c\<in>set df1. \<forall>xs. col_data c = ObjCol xs \<longrightarrow>
              col_data (trim_column c) =
                ObjCol (map (\<lambda>x. case x of None \<Rightarrow> Some (S ''nan'') | Some s \<Rightarrow> Some (py_strip s)) xs))
        \<and> res_cleaning_log res =
            [LogIngested filename, LogFormat ext, LogInitialRows (nrows df), LogDomain domain]
              @ logs1 @ LogRules (Suc (length rs)) # rest"
    using rs R1 F [unfolded dfA] 2 3 by (intro conjI)
  then have "\<exists>rs df1 logs1 rest.
          rules_for domain = rs @ [trim_whitespace]
        \<and> run_rules to_float rs (df, []) = Inr (df1, logs1)
        \<and> res_dataframe res = standardize_columns (dropna_all (map trim_column df1))
        \<and> (\<forall>c\<in>set df1. \<forall>xs. col_data c = ObjCol xs \<longrightarrow>
              col_data (trim_column c) =
                ObjCol (map (\<lambda>x. case x of None \<Rightarrow> Some (S ''nan'') | Some s \<Rightarrow> Some (py_strip s)) xs))
        \<and> res_cleaning_log res =
            [LogIngested filename, LogFormat ext, LogInitialRows (nrows df), LogDomain domain]
              @ logs1 @ LogRules (Suc (length rs)) # rest"
    by (intro exI)
  with 1 show ?thesis ..
qed


lemma general_rules_run:
  "apply_cleaning_rules tf df general_rules =
     Inr (map trim_column df,
          (if null_count df > 0 then [LogNull (null_count df)] else []) @ [LogRules 2])"
  by (simp add: apply_cleaning_rules_def general_rules_def)

lemma clean_general_produced:
  "\<exists>res. clean tf fn ext (S ''general'') df = Inr res"
  by (simp add: clean_def Let_def rules_for_general general_rules_run)

lemma clean_general_Inr:
  assumes "clean tf fn ext (S ''general'') df = Inr res"
  shows "res_dataframe res = standardize_columns (dropna_all (map trim_column df))"
    and "res_headers res = map standardize_header (map col_name (dropna_all (map trim_column df)))"
    and "res_numeric_columns res =
       map standardize_header
         (filter (\<lambda>c. c \<notin> set (detect_date_columns (dropna_all (map trim_column df))))
            (map col_name (filter (\<lambda>c. is_number (col_data c)) (dropna_all (map trim_column df)))))"
    and "res_categorical_columns res =
       map standardize_header
         (map col_name (filter (\<lambda>c. is_object (col_data c) \<or> is_category (col_data c))
            (dropna_all (map trim_column df))))"
    and "res_date_columns res = map standardize_header (detect_date_columns (dropna_all (map trim_column df)))"
proof -
  from assms obtain df1 rule_logs where
    A: "apply_cleaning_rules tf df (rules_for (S ''general'')) = Inr (df1, rule_logs)"
    and R: "res_dataframe res = standardize_columns (dropna_all df1)"
      "res_headers res = map standardize_header (map col_name (dropna_all df1))"
      "res_numeric_columns res =
       map standardize_header
         (filter (\<lambda>c. c \<notin> set (detect_date_columns (dropna_all df1)))
            (map col_name (filter (\<lambda>c. is_number (col_data c)) (dropna_all df1))))"
      "res_categorical_columns res =
       map standardize_header
         (map col_name (filter (\<lambda>c. is_object (col_data c) \<or> is_category (col_data c)) (dropna_all df1)))"
      "res_date_columns res = map standardize_header (detect_date_columns (dropna_all df1))"
    by (rule clean_Inr)
  from A have "df1 = map trim_column df"
    by (simp add: rules_for_general general_rules_run)
  with R show "res_dataframe res = standardize_columns (dropna_all (map trim_column df))"
    and "res_headers res = map standardize_header (map col_name (dropna_all (map trim_column df)))"
    and "res_numeric_columns res =
       map standardize_header
         (filter (\<lambda>c. c \<notin> set (detect_date_columns (dropna_all (map trim_column df))))
            (map col_name (filter (\<lambda>c. is_number (col_data c)) (dropna_all (map trim_column df)))))"
    and "res_categorical_columns res =
       map standardize_header
         (map col_name (filter (\<lambda>c. is_object (col_data c) \<or> is_category (col_data c))
            (dropna_all (map trim_column df))))"
    and "res_date_columns res = map standardize_header (detect_date_columns (dropna_all (map trim_column df)))"
    by simp_all
qed

text \<open>A text column \<open>Month\<close> with one empty cell, and a numeric column \<open>Sales\<close>.\<close>

definition month_frame :: dataframe where
  "month_frame =
     [\<lparr>col_name = S ''Month'', col_data = ObjCol [Some (S ''Jan''), None]\<rparr>,
      \<lparr>col_name = S ''Sales'', col_data = NumCol [Some 10, Some 20]\<rparr>]"

definition month_frame_trimmed :: dataframe where
  "month_frame_trimmed =
     [\<lparr>col_name = S ''Month'', col_data = ObjCol [Some (S ''Jan''), Some (S ''nan'')]\<rparr>,
      \<lparr>col_name = S ''Sales'', col_data = NumCol [Some 10, Some 20]\<rparr>]"

lemma upt2: "[0..<2] = [0, 1]"
  by (simp add: upt_rec)

lemma month_trim: "map trim_column month_frame = month_frame_trimmed"
  by (simp add: month_frame_def month_frame_trimmed_def trim_column_def astype_str_def
      py_strip_def py_isspace_def S_def)

lemma month_nrows: "nrows month_frame_trimmed = 2"
  by (simp add: nrows_def month_frame_trimmed_def)

lemma month_rows:
  "map (row month_frame_trimmed) [0, 1] =
     [[StrCell (S ''Jan''), NumCell 10], [StrCell (S ''nan''), NumCell 20]]"
  by (simp add: row_def month_frame_trimmed_def)

lemma month_dropna: "dropna_all month_frame_trimmed = month_frame_trimmed"
  unfolding dropna_all_def Let_def month_nrows upt2
  apply (simp add: month_rows [simplified])
  apply (simp add: month_frame_trimmed_def select_def)
  done

lemma std_month: "standardize_header (S ''Month'') = S ''month''"
  by (simp add: standardize_header_def py_strip_def remove_nonword_def py_lower_def
      lower_cp_def S_def py_isspace_def py_isword_def ascii_upper_def ascii_lower_def py_isdigit_def)

lemma std_sales: "standardize_header (S ''Sales'') = S ''sales''"
  by (simp add: standardize_header_def py_strip_def remove_nonword_def py_lower_def
      lower_cp_def S_def py_isspace_def py_isword_def ascii_upper_def ascii_lower_def py_isdigit_def)

lemma month_dates: "detect_date_columns month_frame_trimmed = [S ''Month'']"
  by (simp add: detect_date_columns_def month_frame_trimmed_def date_patterns_def py_lower_def
      lower_cp_def ascii_upper_def S_def)

text \<open>The three column sets of a result.\<close>

definition classification :: "clean_result \<Rightarrow> pystr list \<times> pystr list \<times> pystr list" where
  "classification res = (res_numeric_columns res, res_categorical_columns res, res_date_columns res)"

text \<open>
  C5 (as stated) fails on that frame: the text column \<open>Month\<close> is of object dtype and
  its name contains a date pattern, so \<open>month\<close> is in the categorical set and in the
  date set.
\<close>

theorem clean_categorical_date_overlap:
  "map_sum id classification
     (clean (\<lambda>s. None) (S ''sales.csv'') (S ''csv'') (S ''general'') month_frame)
   = Inr ([S ''sales''], [S ''month''], [S ''month''])"
proof -
  obtain res where res: "clean (\<lambda>s. None) (S ''sales.csv'') (S ''csv'') (S ''general'') month_frame = Inr res"
    using clean_general_produced by blast
  note R = clean_general_Inr [OF res, unfolded month_trim month_dropna month_dates]
  have n: "res_numeric_columns res = [S ''sales'']"
    unfolding R(3) by (simp add: month_frame_trimmed_def std_sales) (simp add: S_def)
  have c: "res_categorical_columns res = [S ''month'']"
    unfolding R(4) by (simp add: month_frame_trimmed_def std_month)
  have d: "res_date_columns res = [S ''month'']"
    unfolding R(5) by (simp add: std_month)
  show ?thesis
    unfolding res by (simp add: classification_def n c d)
qed


theorem clean_text_columns_no_nulls_witness:
  "\<exists>res. clean (\<lambda>s. None) (S ''sales.csv'') (S ''csv'') (S ''general'') month_frame = Inr res
     \<and> map col_data (res_dataframe res)
         = [ObjCol [Some (S ''Jan''), Some (S ''nan'')], NumCol [Some 10, Some 20]]
     \<and> None \<notin> set [Some (S ''Jan''), Some (S ''nan'')]"
proof -
  obtain res where res: "clean (\<lambda>s. None) (S ''sales.csv'') (S ''csv'') (S ''general'') month_frame = Inr res"
    using clean_general_produced by blast
  have f: "res_dataframe res = standardize_columns month_frame_trimmed"
    using clean_general_Inr(1) [OF res] by (simp add: month_trim month_dropna)
  then have m: "map col_data (res_dataframe res)
         = [ObjCol [Some (S ''Jan''), Some (S ''nan'')], NumCol [Some 10, Some 20]]"
    by (simp add: standardize_columns_def month_frame_trimmed_def)
  from f have "\<lparr>col_name = standardize_header (S ''Month''),
       col_data = ObjCol [Some (S ''Jan''), Some (S ''nan'')]\<rparr> \<in> set (res_dataframe res)"
    by (simp add: standardize_columns_def month_frame_trimmed_def)
  with clean_text_columns_no_nulls [OF res]
  have "None \<notin> set [Some (S ''Jan''), Some (S ''nan'')]"
    by (metis column.select_convs(2))
  with res m show ?thesis by (intro exI [of _ res] conjI)
qed

text \<open>Two numeric columns, one of them named like a date, and a text column.\<close>

definition sales_frame :: dataframe where
  "sales_frame =
     [\<lparr>col_name = S ''Year'', col_data = NumCol [Some 2023, Some 2024]\<rparr>,
      \<lparr>col_name = S ''Region'', col_data = ObjCol [Some (S ''East''), Some (S ''West'')]\<rparr>,
      \<lparr>col_name = S ''Sales'', col_data = NumCol [Some 10, None]\<rparr>]"

lemma sales_trim: "map trim_column sales_frame = sales_frame"
  by (simp add: sales_frame_def trim_column_def astype_str_def py_strip_def py_isspace_def S_def)

lemma sales_nrows: "nrows sales_frame = 2"
  by (simp add: nrows_def sales_frame_def)

lemma sales_rows:
  "map (row sales_frame) [0, 1] =
     [[NumCell 2023, StrCell (S ''East''), NumCell 10], [NumCell 2024, StrCell (S ''West''), NullCell]]"
  by (simp add: row_def sales_frame_def)

lemma sales_dropna: "dropna_all sales_frame = sales_frame"
  unfolding dropna_all_def Let_def sales_nrows upt2
  apply (simp add: sales_rows [simplified])
  apply (simp add: sales_frame_def select_def)
  done

lemma std_year: "standardize_header (S ''Year'') = S ''year''"
  by (simp add: standardize_header_def py_strip_def remove_nonword_def py_lower_def
      lower_cp_def S_def py_isspace_def py_isword_def ascii_upper_def ascii_lower_def py_isdigit_def)

lemma std_region: "standardize_header (S ''Region'') = S ''region''"
  by (simp add: standardize_header_def py_strip_def remove_nonword_def py_lower_def
      lower_cp_def S_def py_isspace_def py_isword_def ascii_upper_def ascii_lower_def py_isdigit_def)

lemma sales_dates: "detect_date_columns sales_frame = [S ''Year'']"
  by (simp add: detect_date_columns_def sales_frame_def date_patterns_def py_lower_def
      lower_cp_def ascii_upper_def S_def)

theorem clean_numeric_disjoint_witness:
  "\<exists>res. clean (\<lambda>s. None) (S ''sales.csv'') (S ''csv'') (S ''general'') sales_frame = Inr res
     \<and> res_headers res = [S ''year'', S ''region'', S ''sales'']
     \<and> res_numeric_columns res = [S ''sales'']
     \<and> res_categorical_columns res = [S ''region'']
     \<and> res_date_columns res = [S ''year'']
     \<and> set (res_numeric_columns res) \<inter> set (res_date_columns res) = {}
     \<and> set (res_numeric_columns res) \<inter> set (res_categorical_columns res) = {}"
proof -
  obtain res where res: "clean (\<lambda>s. None) (S ''sales.csv'') (S ''csv'') (S ''general'') sales_frame = Inr res"
    using clean_general_produced by blast
  note R = clean_general_Inr [OF res, unfolded sales_trim sales_dropna sales_dates]
  have h: "res_headers res = [S ''year'', S ''region'', S ''sales'']"
    unfolding R(2) by (simp add: sales_frame_def std_year std_region std_sales)
  have n: "res_numeric_columns res = [S ''sales'']"
    unfolding R(3) by (simp add: sales_frame_def std_sales) (simp add: S_def)
  have c: "res_categorical_columns res = [S ''region'']"
    unfolding R(4) by (simp add: sales_frame_def std_region)
  have d: "res_date_columns res = [S ''year'']"
    unfolding R(5) by (simp add: std_year)
  have "distinct (res_headers res)"
    unfolding h by (simp add: S_def)
  from clean_numeric_disjoint [OF res this]
  have "set (res_numeric_columns res) \<inter> set (res_date_columns res) = {}"
    and "set (res_numeric_columns res) \<inter> set (res_categorical_columns res) = {}"
    by blast+
  with res h n c d show ?thesis
    by (intro exI [of _ res] conjI)
qed

section \<open>Heatmap (main.py, \<open>calculate_chart_data\<close>)\<close>

text \<open>
  \<^verbatim>\<open>df[cols].corr(method='pearson')\<close> is computed by pandas. For two columns it takes the
  rows in which both hold a value; with no such row the entry is NaN; otherwise it is
  the covariance sum divided by the square root of the product of the two sums of
  squared deviations, and NaN when that divisor is zero. \<open>None\<close> stands for NaN.
\<close>

definition complete_pairs :: "real option list \<Rightarrow> real option list \<Rightarrow> (real \<times> real) list" where
  "complete_pairs xs ys =
     List.map_filter (\<lambda>p. case p of (Some a, Some b) \<Rightarrow> Some (a, b) | _ \<Rightarrow> None) (zip xs ys)"

definition pearson :: "real option list \<Rightarrow> real option list \<Rightarrow> real option" where
  "pearson xs ys =
     (let ps = complete_pairs xs ys
      in if length ps < 1 then None
         else
           let mx = mean (map fst ps); my = mean (map snd ps);
               ssx = sum_list (map (\<lambda>(x, y). (x - mx) * (x - mx)) ps);
               ssy = sum_list (map (\<lambda>(x, y). (y - my) * (y - my)) ps);
               cov = sum_list (map (\<lambda>(x, y). (x - mx) * (y - my)) ps);
               divisor = sqrt (ssx * ssy)
           in if divisor \<noteq> 0 then Some (cov / divisor) else None)"

text \<open>The values of a numeric column.\<close>

fun num_values :: "series \<Rightarrow> real option list" where
  "num_values (NumCol xs) = xs"
| "num_values _ = []"

text \<open>The chart specification (\<open>ChartRecommendation\<close> in \<^verbatim>\<open>domain_models.py\<close>) and one cell of the result.\<close>

record chart_request =
  req_title :: pystr
  req_chart_type :: pystr
  req_x_axis_col :: pystr
  req_y_axis_col :: pystr
  req_group_col :: "pystr option"
  req_reasoning :: pystr

record heat_cell =
  cell_x :: pystr
  cell_y :: pystr
  cell_value :: real

text \<open>
  The branch for \<^verbatim>\<open>req.chart_type == 'heatmap'\<close>:
  \<^verbatim>\<open>
  numerics = df.select_dtypes(include=['number'])
  cols = numerics.columns[:6]
  if len(cols) < 2: return []
  corr_matrix = df[cols].corr(method='pearson').round(2)
  for x in cols:
      for y in cols:
          val = corr_matrix.loc[x, y]
          heatmap_data.append({"x": x, "y": y, "value": 0 if pd.isna(val) else val})
  \<close>
  The request is an argument of the function and is not read in this branch.
\<close>

definition corr_rounded :: "column \<Rightarrow> column \<Rightarrow> real option" where
  "corr_rounded x y = map_option (py_round 2) (pearson (num_values (col_data x)) (num_values (col_data y)))"

definition heatmap_data :: "dataframe \<Rightarrow> chart_request \<Rightarrow> heat_cell list" where
  "heatmap_data df req =
     (let numerics = filter (\<lambda>c. is_number (col_data c)) df;
          cols = take 6 numerics
      in if length cols < 2 then []
         else concat (map (\<lambda>x. map (\<lambda>y.
                \<lparr>cell_x = col_name x, cell_y = col_name y,
                 cell_value = (case corr_rounded x y of None \<Rightarrow> 0 | Some val \<Rightarrow> val)\<rparr>) cols) cols))"

text \<open>A column varies when it holds two different values.\<close>

definition varies :: "real option list \<Rightarrow> bool" where
  "varies xs \<longleftrightarrow> (\<exists>a\<in>set xs. \<exists>b\<in>set xs. a \<noteq> None \<and> b \<noteq> None \<and> a \<noteq> b)"

definition present :: "real option list \<Rightarrow> real list" where
  "present xs = List.map_filter id xs"

lemma complete_pairs_self: "complete_pairs xs xs = map (\<lambda>v. (v, v)) (present xs)"
proof (induction xs)
  case Nil
  show ?case by (simp add: complete_pairs_def present_def)
next
  case (Cons x xs)
  then show ?case
    by (cases x) (simp_all add: complete_pairs_def present_def map_filter_simps)
qed

lemma set_present: "set (present xs) = {v. Some v \<in> set xs}"
  by (induction xs) (auto simp: present_def map_filter_simps split: option.splits)

lemma varies_present: "varies xs \<longleftrightarrow> (\<exists>a\<in>set (present xs). \<exists>b\<in>set (present xs). a \<noteq> b)"
  by (auto simp: varies_def set_present)

lemma sum_sq_zero_iff:
  "sum_list (map (\<lambda>v. (v - m) * (v - m)) vs) = 0 \<longleftrightarrow> (\<forall>v\<in>set vs. v = m)" for m :: real
proof -
  have "sum_list (map (\<lambda>v. (v - m) * (v - m)) vs) = 0
      \<longleftrightarrow> (\<forall>x\<in>set (map (\<lambda>v. (v - m) * (v - m)) vs). x = 0)"
    by (rule sum_list_nonneg_eq_0_iff) auto
  then show ?thesis by auto
qed

lemma sum_sq_nonneg: "0 \<le> sum_list (map (\<lambda>v. (v - m) * (v - m)) vs)" for m :: real
  by (rule sum_list_nonneg) auto

lemma mean_constant:
  assumes "vs \<noteq> []" "\<forall>v\<in>set vs. v = c"
  shows "mean vs = c"
proof -
  from assms(2) have "map (\<lambda>v. c) vs = vs"
    by (simp add: map_idI)
  then have "sum_list vs = sum_list (map (\<lambda>v. c) vs)" by simp
  also have "\<dots> = real (length vs) * c" by (simp add: sum_list_triv)
  finally show ?thesis using assms(1) by (simp add: mean_def)
qed

lemma all_mean_iff:
  assumes "vs \<noteq> []"
  shows "(\<forall>v\<in>set vs. v = mean vs) \<longleftrightarrow> \<not> (\<exists>a\<in>set vs. \<exists>b\<in>set vs. a \<noteq> b)"
proof
  assume "\<forall>v\<in>set vs. v = mean vs"
  then show "\<not> (\<exists>a\<in>set vs. \<exists>b\<in>set vs. a \<noteq> b)" by metis
next
  assume n: "\<not> (\<exists>a\<in>set vs. \<exists>b\<in>set vs. a \<noteq> b)"
  from assms obtain c where c: "c \<in> set vs" by (cases vs) auto
  with n have "\<forall>v\<in>set vs. v = c" by blast
  with mean_constant [OF assms this] show "\<forall>v\<in>set vs. v = mean vs" by simp
qed

lemma pearson_self: "pearson xs xs = (if varies xs then Some 1 else None)"
proof (cases "present xs = []")
  case True
  then show ?thesis
    by (simp add: pearson_def complete_pairs_self varies_present)
next
  case False
  let ?vs = "present xs"
  let ?m = "mean ?vs"
  let ?s = "sum_list (map (\<lambda>v. (v - ?m) * (v - ?m)) ?vs)"
  have m: "map fst (map (\<lambda>v. (v, v)) ?vs) = ?vs" "map snd (map (\<lambda>v. (v, v)) ?vs) = ?vs"
    by (simp_all add: comp_def)
  have s: "?s = 0 \<longleftrightarrow> \<not> varies xs"
    by (simp add: sum_sq_zero_iff all_mean_iff [OF False] varies_present)
  have p: "pearson xs xs = (if sqrt (?s * ?s) \<noteq> 0 then Some (?s / sqrt (?s * ?s)) else None)"
    using False
    by (simp add: pearson_def complete_pairs_self Let_def m comp_def del: real_sqrt_eq_zero_cancel_iff)
  have q: "sqrt (?s * ?s) = ?s"
    using sum_sq_nonneg [of ?m ?vs] by simp
  show ?thesis
    unfolding p q using s by auto
qed


lemma nth_concat_uniform:
  assumes "\<forall>x\<in>set xs. length (f x) = n" "i < length xs" "j < n"
  shows "concat (map f xs) ! (i * n + j) = f (xs ! i) ! j"
  using assms
proof (induction xs arbitrary: i)
  case Nil
  then show ?case by simp
next
  case (Cons x xs)
  show ?case
  proof (cases i)
    case 0
    with Cons.prems show ?thesis by (simp add: nth_append)
  next
    case (Suc k)
    with Cons.prems have "concat (map f xs) ! (k * n + j) = f (xs ! k) ! j"
      by (intro Cons.IH) auto
    moreover from Cons.prems have "length (f x) = n" by simp
    ultimately show ?thesis
      using Suc by (simp add: nth_append add.assoc)
  qed
qed

lemma length_concat_uniform:
  "\<forall>x\<in>set xs. length (f x) = n \<Longrightarrow> length (concat (map f xs)) = length xs * n"
  by (induction xs) auto

lemma py_round_one: "py_round 2 1 = 1"
  by (simp add: py_round_def round_half_even_def)

lemma heatmap_data_unfold:
  "heatmap_data df req =
     (if length (take 6 (filter (\<lambda>c. is_number (col_data c)) df)) < 2 then []
      else concat (map (\<lambda>x. map (\<lambda>y.
                \<lparr>cell_x = col_name x, cell_y = col_name y,
                 cell_value = (case corr_rounded x y of None \<Rightarrow> 0 | Some val \<Rightarrow> val)\<rparr>)
              (take 6 (filter (\<lambda>c. is_number (col_data c)) df)))
            (take 6 (filter (\<lambda>c. is_number (col_data c)) df))))"
  by (simp add: heatmap_data_def Let_def)

lemma heatmap_facts:
  fixes df req
  defines "numerics \<equiv> filter (\<lambda>c. is_number (col_data c)) df"
  defines "n \<equiv> min 6 (length numerics)"
  defines "out \<equiv> heatmap_data df req"
  shows "length numerics < 2 \<longrightarrow> out = []"
    and "2 \<le> length numerics \<longrightarrow> length out = n * n"
    and "length out \<le> 36"
    and "2 \<le> length numerics \<longrightarrow>
          (\<forall>i<n. \<forall>j<n. out ! (i * n + j) =
             \<lparr>cell_x = col_name (numerics ! i), cell_y = col_name (numerics ! j),
              cell_value =
                (case pearson (num_values (col_data (numerics ! i))) (num_values (col_data (numerics ! j))) of
                   None \<Rightarrow> 0 | Some r \<Rightarrow> py_round 2 r)\<rparr>)"
    and "2 \<le> length numerics \<longrightarrow>
          (\<forall>i<n. cell_value (out ! (i * n + i)) =
             (if varies (num_values (col_data (numerics ! i))) then 1 else 0))"
    and "heatmap_data df req' = out"
proof -
  define cols where "cols = take 6 numerics"
  let ?cell = "\<lambda>x y. \<lparr>cell_x = col_name x, cell_y = col_name y,
                 cell_value = (case corr_rounded x y of None \<Rightarrow> 0 | Some val \<Rightarrow> val)\<rparr>"
  have len: "length cols = n"
    by (simp add: cols_def n_def min.commute)
  have nth: "cols ! i = numerics ! i" if "i < n" for i
    using that by (simp add: cols_def n_def)
  have out: "out = (if n < 2 then [] else concat (map (\<lambda>x. map (?cell x) cols) cols))"
    unfolding out_def heatmap_data_unfold numerics_def [symmetric] cols_def [symmetric] len ..
  have small: "n < 2 \<longleftrightarrow> length numerics < 2"
    by (auto simp: n_def)
  show "length numerics < 2 \<longrightarrow> out = []"
    by (simp add: out small)
  have uni: "\<forall>x\<in>set cols. length (map (?cell x) cols) = n"
    by (simp add: len)
  have lc: "length (concat (map (\<lambda>x. map (?cell x) cols) cols)) = n * n"
    using length_concat_uniform [OF uni] by (simp add: len)
  show sz: "2 \<le> length numerics \<longrightarrow> length out = n * n"
    by (simp add: out small lc)
  have n6: "n \<le> 6" by (simp add: n_def)
  have "n * n \<le> 36"
    using mult_le_mono [OF n6 n6] by simp
  moreover have "length out = 0 \<or> length out = n * n"
    by (simp add: out lc)
  ultimately show "length out \<le> 36"
    by auto
  have cellij: "out ! (i * n + j) = ?cell (numerics ! i) (numerics ! j)"
    if "2 \<le> length numerics" "i < n" "j < n" for i j
  proof -
    from that have "out ! (i * n + j) = map (?cell (cols ! i)) cols ! j"
      using nth_concat_uniform [OF uni, of i j] by (simp add: out small len)
    also have "\<dots> = ?cell (cols ! i) (cols ! j)"
      using that by (simp add: len)
    also have "\<dots> = ?cell (numerics ! i) (numerics ! j)"
      using that by (simp add: nth)
    finally show ?thesis .
  qed
  show "2 \<le> length numerics \<longrightarrow>
          (\<forall>i<n. \<forall>j<n. out ! (i * n + j) =
             \<lparr>cell_x = col_name (numerics ! i), cell_y = col_name (numerics ! j),
              cell_value =
                (case pearson (num_values (col_data (numerics ! i))) (num_values (col_data (numerics ! j))) of
                   None \<Rightarrow> 0 | Some r \<Rightarrow> py_round 2 r)\<rparr>)"
    by (auto simp: cellij corr_rounded_def split: option.splits)
  show "2 \<le> length numerics \<longrightarrow>
          (\<forall>i<n. cell_value (out ! (i * n + i)) =
             (if varies (num_values (col_data (numerics ! i))) then 1 else 0))"
    by (simp add: cellij corr_rounded_def pearson_self py_round_one)
  show "heatmap_data df req' = out"
    by (simp add: out_def heatmap_data_def)
qed

text \<open>
  C7 (as amended): the heatmap uses the first at most six numeric columns and does not
  depend on the request's column hints. With fewer than two numeric columns the result
  is empty; otherwise it has exactly \<open>n * n\<close> cells, \<open>n = min(6, number of numeric
  columns)\<close>, at most 36, cell \<open>i * n + j\<close> holding the labels of columns \<open>i\<close> and \<open>j\<close> and
  their Pearson correlation rounded to two decimals, or 0 when that correlation is NaN.
  A diagonal cell holds 1 when its column varies and 0 when the column is constant or
  has fewer than two values (its self-correlation is NaN then).
\<close>

theorem heatmap_cells:
  "let numerics = filter (\<lambda>c. is_number (col_data c)) df;
       n = min 6 (length numerics);
       out = heatmap_data df req
   in (length numerics < 2 \<longrightarrow> out = [])
    \<and> (2 \<le> length numerics \<longrightarrow> length out = n * n)
    \<and> length out \<le> 36
    \<and> (2 \<le> length numerics \<longrightarrow>
          (\<forall>i<n. \<forall>j<n. out ! (i * n + j) =
             \<lparr>cell_x = col_name (numerics ! i), cell_y = col_name (numerics ! j),
              cell_value =
                (case pearson (num_values (col_data (numerics ! i))) (num_values (col_data (numerics ! j))) of
                   None \<Rightarrow> 0 | Some r \<Rightarrow> py_round 2 r)\<rparr>))
    \<and> (2 \<le> length numerics \<longrightarrow>
          (\<forall>i<n. cell_value (out ! (i * n + i)) =
             (if varies (num_values (col_data (numerics ! i))) then 1 else 0)))
    \<and> heatmap_data df req' = out"
  unfolding Let_def
  by (intro conjI; rule heatmap_facts)


text \<open>A heatmap request, and a frame with a constant column.\<close>

definition heat_request :: chart_request where
  "heat_request =
     \<lparr>req_title = S ''Correlations'', req_chart_type = S ''heatmap'', req_x_axis_col = S ''name'',
      req_y_axis_col = S ''score'', req_group_col = None, req_reasoning = S ''numeric columns''\<rparr>"

definition flat_frame :: dataframe where
  "flat_frame =
     [\<lparr>col_name = S ''level'', col_data = NumCol [Some 1, Some 1, Some 1]\<rparr>,
      \<lparr>col_name = S ''score'', col_data = NumCol [Some 1, Some 2, Some 4]\<rparr>]"

lemma pearson_flat:
  "pearson [Some 1, Some 1, Some 1] [Some 1, Some 2, Some 4] = None"
  "pearson [Some 1, Some 2, Some 4] [Some 1, Some 1, Some 1] = None"
  by (simp_all add: pearson_def complete_pairs_def map_filter_simps mean_def)

text \<open>
  C7 (as stated) fails on that frame: the diagonal cell of the constant column \<open>level\<close>
  holds 0, not 1.
\<close>

theorem heatmap_constant_column:
  "map (\<lambda>c. (cell_x c, cell_y c, cell_value c)) (heatmap_data flat_frame heat_request)
   = [(S ''level'', S ''level'', 0), (S ''level'', S ''score'', 0),
      (S ''score'', S ''level'', 0), (S ''score'', S ''score'', 1)]"
proof -
  have v: "\<not> varies [Some 1, Some 1, Some 1]" "varies [Some 1, Some 2, Some 4]"
    by (simp_all add: varies_def)
  show ?thesis
    by (simp add: heatmap_data_unfold flat_frame_def corr_rounded_def pearson_flat pearson_self v
        py_round_one)
qed

text \<open>A text column and three numeric columns, the second with a single value.\<close>

definition scores_frame :: dataframe where
  "scores_frame =
     [\<lparr>col_name = S ''name'', col_data = ObjCol [Some (S ''Ann''), Some (S ''Bob'')]\<rparr>,
      \<lparr>col_name = S ''age'', col_data = NumCol [Some 30, Some 40]\<rparr>,
      \<lparr>col_name = S ''score'', col_data = NumCol [Some 7, None]\<rparr>,
      \<lparr>col_name = S ''rating'', col_data = NumCol [Some 1, Some 3]\<rparr>]"

theorem heatmap_cells_witness:
  "length (heatmap_data scores_frame heat_request) = 9
   \<and> cell_value (heatmap_data scores_frame heat_request ! 0) = 1
   \<and> cell_value (heatmap_data scores_frame heat_request ! 4) = 0
   \<and> cell_value (heatmap_data scores_frame heat_request ! 8) = 1"
proof -
  have f: "filter (\<lambda>c. is_number (col_data c)) scores_frame = tl scores_frame"
    by (simp add: scores_frame_def)
  have l: "length (tl scores_frame) = 3"
    by (simp add: scores_frame_def)
  note T = heatmap_cells [of scores_frame heat_request heat_request, unfolded Let_def f l]
  from T have n: "length (heatmap_data scores_frame heat_request) = 9"
    by simp
  from T have d: "\<forall>i<3. cell_value (heatmap_data scores_frame heat_request ! (i * 3 + i)) =
      (if varies (num_values (col_data (tl scores_frame ! i))) then 1 else 0)"
    by simp
  have v: "varies (num_values (col_data (tl scores_frame ! 0)))"
    "\<not> varies (num_values (col_data (tl scores_frame ! 1)))"
    "varies (num_values (col_data (tl scores_frame ! 2)))"
    by (simp_all add: scores_frame_def varies_def)
  from d [rule_format, of 0] d [rule_format, of 1] d [rule_format, of 2] v n
  show ?thesis by simp
qed

section \<open>Recommendation blueprint (\<^verbatim>\<open>sop_service.py\<close>, \<open>analyze_dataset_structure\<close>)\<close>

text \<open>
  The collaborator's answer is text. \<^verbatim>\<open>json.loads\<close> is a library function and a
  parameter here: \<open>json_loads s\<close> is the parsed value, or \<open>None\<close> when \<^verbatim>\<open>json.loads(s)\<close>
  raises. An object is the list of its keys with their values, each key once.
\<close>

datatype json =
    JNull | JBool bool | JNum real | JStr pystr | JArr "json list" | JObj "(pystr \<times> json) list"







































end
